theory Spec2Isabelle
  imports Main
begin

section \<open>Values and identifiers\<close>

text \<open>
  Go's \<open>interface{}\<close> values as they occur in the declared resource state and in the
  SDK payloads: strings, numbers, booleans, lists, string-keyed maps and \<open>nil\<close>.
\<close>

datatype iface =
    VNil
  | VStr string
  | VNum int
  | VBool bool
  | VList "iface list"
  | VMap "(string \<times> iface) list"

text \<open>\<open>parse.DataFactoryId\<close> and \<open>parse.DataSetId\<close>: the structs the handlers read.\<close>

record DataFactoryId =
  df_SubscriptionId :: string
  df_ResourceGroup :: string
  df_FactoryName :: string

record DataSetId =
  SubscriptionId :: string
  ResourceGroup :: string
  FactoryName :: string
  Name :: string

text \<open>
  The panics the handlers can raise, by the place of the nil dereference:
  line 182 (\<open>dataFactoryId.ResourceGroup\<close>), line 282 (\<open>resp.Properties\<close>, a nil
  interface) and line 284 (\<open>*resp.Type\<close>).
\<close>

datatype panic = NilDataFactoryId | NilProperties | NilRespType

text \<open>
  The errors a handler returns. Each \<open>fmt.Errorf\<close> of the source is one constructor
  carrying what the message is formatted from; an API error is its message.
\<close>

datatype error =
    ParseError string
  | CheckingPresence DataSetId string
  | ImportAsExistsError string string
  | CreatingUpdating DataSetId string
  | Retrieving DataSetId string
  | Classifying DataSetId string string
  | SettingField string string
  | Deleting DataSetId string
  | Panic panic

subsection \<open>The identifier helpers of package \<open>parse\<close>\<close>

definition NewDataFactoryID :: "string \<Rightarrow> string \<Rightarrow> string \<Rightarrow> DataFactoryId" where
  "NewDataFactoryID subscriptionId resourceGroup factoryName =
     \<lparr>df_SubscriptionId = subscriptionId, df_ResourceGroup = resourceGroup,
      df_FactoryName = factoryName\<rparr>"

definition NewDataSetID :: "string \<Rightarrow> string \<Rightarrow> string \<Rightarrow> string \<Rightarrow> DataSetId" where
  "NewDataSetID subscriptionId resourceGroup factoryName name =
     \<lparr>SubscriptionId = subscriptionId, ResourceGroup = resourceGroup,
      FactoryName = factoryName, Name = name\<rparr>"

text \<open>
  Modelled from the spec: \<open>DataSetId.ID()\<close> of package \<open>parse\<close>, which is not among the
  sources. The spec gives the identifier format
  \<open>/subscriptions/{sub}/resourceGroups/{rg}/providers/{provider}/factories/{factory}/datasets/{name}\<close>;
  the provider of a data factory is \<open>Microsoft.DataFactory\<close>.
\<close>

definition DataSetId_ID :: "DataSetId \<Rightarrow> string" where
  "DataSetId_ID i =
     ''/subscriptions/'' @ SubscriptionId i @ ''/resourceGroups/'' @ ResourceGroup i
       @ ''/providers/Microsoft.DataFactory/factories/'' @ FactoryName i
       @ ''/datasets/'' @ Name i"

text \<open>
  Modelled from the spec: \<open>DataFactoryId.ID()\<close> of package \<open>parse\<close>, the address of the
  parent container: the dataset format without its last two segments.
\<close>

definition DataFactoryId_ID :: "DataFactoryId \<Rightarrow> string" where
  "DataFactoryId_ID i =
     ''/subscriptions/'' @ df_SubscriptionId i @ ''/resourceGroups/'' @ df_ResourceGroup i
       @ ''/providers/Microsoft.DataFactory/factories/'' @ df_FactoryName i"

text \<open>\<open>strings.Split(s, "/")\<close>: the segments between the separators, empty ones kept.\<close>

fun split_on :: "char \<Rightarrow> string \<Rightarrow> string list" where
  "split_on c [] = [[]]"
| "split_on c (x # xs) =
     (if x = c then [] # split_on c xs
      else (case split_on c xs of
              [] \<Rightarrow> [[x]]
            | w # ws \<Rightarrow> (x # w) # ws))"

text \<open>
  Modelled from the spec: \<open>parse.DataSetID\<close>, which is not among the sources. It accepts
  exactly the strings of the identifier format whose four variable segments are
  non-empty, and returns the segments.
\<close>

fun DataSetID_segments :: "string \<Rightarrow> string list \<Rightarrow> error + DataSetId" where
  "DataSetID_segments input [e, k1, sub, k2, rg, k3, ns, k4, factory, k5, name] =
     (if e = [] \<and> k1 = ''subscriptions'' \<and> k2 = ''resourceGroups'' \<and> k3 = ''providers''
         \<and> ns = ''Microsoft.DataFactory'' \<and> k4 = ''factories'' \<and> k5 = ''datasets''
         \<and> sub \<noteq> [] \<and> rg \<noteq> [] \<and> factory \<noteq> [] \<and> name \<noteq> []
      then Inr \<lparr>SubscriptionId = sub, ResourceGroup = rg, FactoryName = factory, Name = name\<rparr>
      else Inl (ParseError input))"
| "DataSetID_segments input _ = Inl (ParseError input)"

definition DataSetID :: "string \<Rightarrow> error + DataSetId" where
  "DataSetID input = DataSetID_segments input (split_on CHR ''/'' input)"

text \<open>
  Modelled from the spec: \<open>parse.DataFactoryID\<close>, which is not among the sources; the
  parser of the parent container's address.
\<close>

fun DataFactoryID_segments :: "string \<Rightarrow> string list \<Rightarrow> error + DataFactoryId" where
  "DataFactoryID_segments input [e, k1, sub, k2, rg, k3, ns, k4, factory] =
     (if e = [] \<and> k1 = ''subscriptions'' \<and> k2 = ''resourceGroups'' \<and> k3 = ''providers''
         \<and> ns = ''Microsoft.DataFactory'' \<and> k4 = ''factories''
         \<and> sub \<noteq> [] \<and> rg \<noteq> [] \<and> factory \<noteq> []
      then Inr \<lparr>df_SubscriptionId = sub, df_ResourceGroup = rg, df_FactoryName = factory\<rparr>
      else Inl (ParseError input))"
| "DataFactoryID_segments input _ = Inl (ParseError input)"

definition DataFactoryID :: "string \<Rightarrow> error + DataFactoryId" where
  "DataFactoryID input = DataFactoryID_segments input (split_on CHR ''/'' input)"

text \<open>A component an identifier can carry: not empty, and free of the separator.\<close>

definition valid_segment :: "string \<Rightarrow> bool" where
  "valid_segment s = (s \<noteq> [] \<and> CHR ''/'' \<notin> set s)"

section \<open>The SDK's payload types\<close>

text \<open>
  The types of the data factory SDK that the handlers build and read. A Go pointer is an
  option (\<open>None\<close> is \<open>nil\<close>); a nil map or slice is the empty one. The fields of
  \<open>DatasetResource\<close> the handlers never touch (\<open>Name\<close>, \<open>Etag\<close>) are left out.
  \<open>Response\<close> is the HTTP status of the embedded \<open>autorest.Response\<close>, \<open>None\<close> when
  no HTTP response came back.
\<close>

record RelationalTableDatasetTypeProperties =
  TableName :: iface

record LinkedServiceReference =
  ReferenceName :: "string option"
  lsr_Type :: "string option"

record DatasetFolder =
  folder_Name :: "string option"

record RelationalTableDataset =
  RelationalTableDatasetTypeProperties :: "RelationalTableDatasetTypeProperties option"
  AdditionalProperties :: "(string \<times> iface) list"
  Description :: "string option"
  Structure :: iface
  LinkedServiceName :: "LinkedServiceReference option"
  Parameters :: iface
  Annotations :: "iface list option"
  Folder :: "DatasetFolder option"

text \<open>
  \<open>BasicDataset\<close> is the SDK's type-tagged union of dataset shapes. The handlers only ask
  whether a value is the relational-table variant; every other variant is kept by its tag.
\<close>

datatype BasicDataset =
    IsRelationalTableDataset RelationalTableDataset
  | OtherDataset string

fun AsRelationalTableDataset :: "BasicDataset \<Rightarrow> RelationalTableDataset option" where
  "AsRelationalTableDataset (IsRelationalTableDataset t) = Some t"
| "AsRelationalTableDataset (OtherDataset tag) = None"

record DatasetResource =
  Response :: "nat option"
  ID :: "string option"
  Type :: "string option"
  Properties :: "BasicDataset option"

definition TypeBasicDatasetTypePostgreSQLTable :: string where
  "TypeBasicDatasetTypePostgreSQLTable = ''PostgreSqlTable''"

text \<open>
  Modelled from the spec: \<open>utils.ResponseWasNotFound\<close>, which is not among the sources.
  The spec calls its answer a "not found" response: an HTTP response came back and its
  status is 404.
\<close>

definition ResponseWasNotFound :: "nat option \<Rightarrow> bool" where
  "ResponseWasNotFound resp = (resp = Some 404)"

section \<open>The declared resource state\<close>

text \<open>
  \<open>pluginsdk.ResourceData\<close>: the persistent key, whether the resource is being created,
  and the flat mapping from field name to value. A field that is not in the mapping is
  unset.
\<close>

record ResourceData =
  rd_Id :: string
  IsNewResource :: bool
  rd_fields :: "string \<rightharpoonup> iface"

text \<open>
  \<open>d.Get(key).(string)\<close> on a key the schema declares \<open>TypeString\<close>: the stored string,
  or the zero value when the field is unset. The schema types the state, so no other
  value is stored under such a key.
\<close>

definition GetString :: "ResourceData \<Rightarrow> string \<Rightarrow> string" where
  "GetString d key = (case rd_fields d key of Some (VStr s) \<Rightarrow> s | _ \<Rightarrow> [])"

text \<open>\<open>d.GetOk(key)\<close>: the value, and whether it is set to something other than the zero value.\<close>

definition is_zero :: "iface \<Rightarrow> bool" where
  "is_zero v = (v = VNil \<or> v = VStr [] \<or> v = VList [] \<or> v = VMap [] \<or> v = VNum 0 \<or> v = VBool False)"

definition GetOk :: "ResourceData \<Rightarrow> string \<Rightarrow> iface option" where
  "GetOk d key = (case rd_fields d key of None \<Rightarrow> None | Some v \<Rightarrow> if is_zero v then None else Some v)"

definition SetId :: "string \<Rightarrow> ResourceData \<Rightarrow> ResourceData" where
  "SetId v d = d\<lparr>rd_Id := v\<rparr>"

section \<open>The environment of a handler\<close>

text \<open>
  What a handler reaches through \<open>meta\<close> and through its package, none of it among the
  sources, so all of it a parameter: the dataset client of the external API, acting on
  a world \<open>'w\<close> that each call may change; the expand and flatten helpers of package
  \<open>datafactory\<close>; and the check by which \<open>d.Set\<close> refuses a value (\<open>Some\<close> message).
  The deadline contexts (\<open>timeouts.ForCreateUpdate\<close> and the like) carry no data.
\<close>

record 'w env =
  SubscriptionID :: string
  client_Get :: "'w \<Rightarrow> string \<Rightarrow> string \<Rightarrow> string \<Rightarrow> string \<Rightarrow> (DatasetResource \<times> string option) \<times> 'w"
  client_CreateOrUpdate ::
    "'w \<Rightarrow> string \<Rightarrow> string \<Rightarrow> string \<Rightarrow> DatasetResource \<Rightarrow> string \<Rightarrow> string option \<times> 'w"
  client_Delete :: "'w \<Rightarrow> string \<Rightarrow> string \<Rightarrow> string \<Rightarrow> (nat option \<times> string option) \<times> 'w"
  expandDataFactoryParameters :: "iface \<Rightarrow> iface"
  expandDataFactoryDatasetStructure :: "iface \<Rightarrow> iface"
  flattenDataFactoryParameters :: "iface \<Rightarrow> iface"
  flattenDataFactoryAnnotations :: "iface list option \<Rightarrow> iface"
  flattenDataFactoryStructureColumns :: "iface \<Rightarrow> iface"
  set_refused :: "string \<Rightarrow> iface \<Rightarrow> string option"

text \<open>The calls a handler issues to the external API, in order, with their arguments.\<close>

datatype api_call =
    CallGet string string string string
  | CallCreateOrUpdate string string string DatasetResource string
  | CallDelete string string string

text \<open>
  What a handler acts on: the declared resource state \<open>d\<close>, the world behind the client,
  and the log of the calls issued so far.
\<close>

record 'w state =
  rd :: ResourceData
  world :: 'w
  calls :: "api_call list"

text \<open>
  \<open>d.Set(key, value)\<close>: the value is written under the key unless the schema check
  refuses it, which leaves the state as it was and returns the error.
\<close>

definition rd_Set :: "'w env \<Rightarrow> string \<Rightarrow> iface \<Rightarrow> ResourceData \<Rightarrow> string option \<times> ResourceData" where
  "rd_Set e key v d =
     (case set_refused e key v of
        Some msg \<Rightarrow> (Some msg, d)
      | None \<Rightarrow> (None, d\<lparr>rd_fields := (rd_fields d)(key \<mapsto> v)\<rparr>))"

text \<open>A \<open>d.Set\<close> whose returned error the source drops.\<close>

definition Set_unchecked :: "'w env \<Rightarrow> string \<Rightarrow> iface \<Rightarrow> ResourceData \<Rightarrow> ResourceData" where
  "Set_unchecked e key v d = snd (rd_Set e key v d)"

text \<open>The three client calls, each logged and applied to the world.\<close>

definition do_Get ::
  "'w env \<Rightarrow> DataSetId \<Rightarrow> 'w state \<Rightarrow> (DatasetResource \<times> string option) \<times> 'w state" where
  "do_Get e i st =
     (case client_Get e (world st) (ResourceGroup i) (FactoryName i) (Name i) [] of
        (r, w) \<Rightarrow>
          (r, st\<lparr>world := w,
                calls := calls st @ [CallGet (ResourceGroup i) (FactoryName i) (Name i) []]\<rparr>))"

definition do_CreateOrUpdate ::
  "'w env \<Rightarrow> DataSetId \<Rightarrow> DatasetResource \<Rightarrow> 'w state \<Rightarrow> string option \<times> 'w state" where
  "do_CreateOrUpdate e i dataset st =
     (case client_CreateOrUpdate e (world st) (ResourceGroup i) (FactoryName i) (Name i) dataset [] of
        (r, w) \<Rightarrow>
          (r, st\<lparr>world := w,
                calls := calls st
                  @ [CallCreateOrUpdate (ResourceGroup i) (FactoryName i) (Name i) dataset []]\<rparr>))"

definition do_Delete ::
  "'w env \<Rightarrow> DataSetId \<Rightarrow> 'w state \<Rightarrow> (nat option \<times> string option) \<times> 'w state" where
  "do_Delete e i st =
     (case client_Delete e (world st) (ResourceGroup i) (FactoryName i) (Name i) of
        (r, w) \<Rightarrow>
          (r, st\<lparr>world := w,
                calls := calls st @ [CallDelete (ResourceGroup i) (FactoryName i) (Name i)]\<rparr>))"

section \<open>The create/update handler\<close>

text \<open>
  Lines 169 to 180: the factory identifier, from \<open>data_factory_name\<close> when it is not empty
  and then, overriding it, from \<open>data_factory_id\<close> when that is not empty. \<open>Inl\<close> is the
  early return of the parse error; \<open>Inr None\<close> is the pointer left nil.
\<close>

definition resolveDataFactoryId :: "'w env \<Rightarrow> ResourceData \<Rightarrow> error + DataFactoryId option" where
  "resolveDataFactoryId e d =
     (let dataFactoryId =
            (if GetString d ''data_factory_name'' \<noteq> []
             then Some (NewDataFactoryID (SubscriptionID e) (GetString d ''resource_group_name'')
                          (GetString d ''data_factory_name''))
             else None)
      in if GetString d ''data_factory_id'' \<noteq> []
         then (case DataFactoryID (GetString d ''data_factory_id'') of
                 Inl err \<Rightarrow> Inl err
               | Inr i \<Rightarrow> Inr (Some i))
         else Inr dataFactoryId)"

text \<open>
  Lines 192 to 194: an entity that came back with a non-empty ID is reported by
  \<open>tf.ImportAsExistsError\<close>, kept here as a constructor with its two arguments.
\<close>

definition existsError :: "DatasetResource \<Rightarrow> error option" where
  "existsError existing =
     (case ID existing of
        None \<Rightarrow> None
      | Some x \<Rightarrow>
          if x \<noteq> [] then Some (ImportAsExistsError ''azurerm_data_factory_dataset_postgresql'' x)
          else None)"

text \<open>Lines 184 to 195: the probe for an entity that already exists, on creation only.\<close>

definition checkExisting :: "'w env \<Rightarrow> DataSetId \<Rightarrow> 'w state \<Rightarrow> error option \<times> 'w state" where
  "checkExisting e i st =
     (if IsNewResource (rd st)
      then (case do_Get e i st of
              ((existing, Some msg), st1) \<Rightarrow>
                if \<not> ResponseWasNotFound (Response existing)
                then (Some (CheckingPresence i msg), st1)
                else (existsError existing, st1)
            | ((existing, None), st1) \<Rightarrow> (existsError existing, st1))
      else (None, st))"

text \<open>
  Lines 197 to 243: the payload. \<open>GetOk\<close> values are asserted to the type the schema
  declares for their key, which the schema-typed state cannot violate.
\<close>

definition buildDataset :: "'w env \<Rightarrow> ResourceData \<Rightarrow> DatasetResource" where
  "buildDataset e d =
     (let postgresqlDatasetProperties = \<lparr>TableName = VStr (GetString d ''table_name'')\<rparr>;
          linkedService =
            \<lparr>ReferenceName = Some (GetString d ''linked_service_name''),
             lsr_Type = Some ''LinkedServiceReference''\<rparr>;
          postgresqlTableset =
            \<lparr>RelationalTableDatasetTypeProperties = Some postgresqlDatasetProperties,
             AdditionalProperties =
               (case GetOk d ''additional_properties'' of Some (VMap m) \<Rightarrow> m | _ \<Rightarrow> []),
             Description = Some (GetString d ''description''),
             Structure =
               (case GetOk d ''schema_column'' of
                  Some v \<Rightarrow> expandDataFactoryDatasetStructure e v
                | None \<Rightarrow> VNil),
             LinkedServiceName = Some linkedService,
             Parameters =
               (case GetOk d ''parameters'' of
                  Some v \<Rightarrow> expandDataFactoryParameters e v
                | None \<Rightarrow> VNil),
             Annotations = (case GetOk d ''annotations'' of Some (VList xs) \<Rightarrow> Some xs | _ \<Rightarrow> None),
             Folder =
               (case GetOk d ''folder'' of
                  Some (VStr name) \<Rightarrow> Some \<lparr>folder_Name = Some name\<rparr>
                | _ \<Rightarrow> None)\<rparr>
      in \<lparr>Response = None, ID = None, Type = Some TypeBasicDatasetTypePostgreSQLTable,
          Properties = Some (IsRelationalTableDataset postgresqlTableset)\<rparr>)"

section \<open>The read handler\<close>

text \<open>Lines 289 to 291, 303 to 307, 309 to 316 and 318 to 322: the four guarded writes.\<close>

definition setDescription :: "'w env \<Rightarrow> RelationalTableDataset \<Rightarrow> ResourceData \<Rightarrow> ResourceData" where
  "setDescription e postgresqlTable d =
     (case Description postgresqlTable of
        None \<Rightarrow> d
      | Some s \<Rightarrow> Set_unchecked e ''description'' (VStr s) d)"

definition setLinkedServiceName :: "'w env \<Rightarrow> RelationalTableDataset \<Rightarrow> ResourceData \<Rightarrow> ResourceData" where
  "setLinkedServiceName e postgresqlTable d =
     (case LinkedServiceName postgresqlTable of
        None \<Rightarrow> d
      | Some linkedService \<Rightarrow>
          (case ReferenceName linkedService of
             None \<Rightarrow> d
           | Some n \<Rightarrow> Set_unchecked e ''linked_service_name'' (VStr n) d))"

definition setTableName :: "'w env \<Rightarrow> RelationalTableDataset \<Rightarrow> ResourceData \<Rightarrow> ResourceData" where
  "setTableName e postgresqlTable d =
     (case RelationalTableDatasetTypeProperties postgresqlTable of
        None \<Rightarrow> d
      | Some properties \<Rightarrow>
          (case TableName properties of
             VStr val \<Rightarrow> Set_unchecked e ''table_name'' (VStr val) d
           | _ \<Rightarrow> d))"

definition setFolder :: "'w env \<Rightarrow> RelationalTableDataset \<Rightarrow> ResourceData \<Rightarrow> ResourceData" where
  "setFolder e postgresqlTable d =
     (case Folder postgresqlTable of
        None \<Rightarrow> d
      | Some folder \<Rightarrow>
          (case folder_Name folder of
             None \<Rightarrow> d
           | Some n \<Rightarrow> Set_unchecked e ''folder'' (VStr n) d))"

text \<open>Lines 287 to 329: the relational-table dataset copied into the declared state.\<close>

definition readDataset ::
  "'w env \<Rightarrow> RelationalTableDataset \<Rightarrow> ResourceData \<Rightarrow> error option \<times> ResourceData" where
  "readDataset e postgresqlTable d0 =
     (let d1 = Set_unchecked e ''additional_properties''
                 (VMap (AdditionalProperties postgresqlTable)) d0;
          d2 = setDescription e postgresqlTable d1
      in case rd_Set e ''parameters''
                (flattenDataFactoryParameters e (Parameters postgresqlTable)) d2 of
           (Some msg, d3) \<Rightarrow> (Some (SettingField ''parameters'' msg), d3)
         | (None, d3) \<Rightarrow>
             (case rd_Set e ''annotations''
                     (flattenDataFactoryAnnotations e (Annotations postgresqlTable)) d3 of
                (Some msg, d4) \<Rightarrow> (Some (SettingField ''annotations'' msg), d4)
              | (None, d4) \<Rightarrow>
                  (let d5 = setLinkedServiceName e postgresqlTable d4;
                       d6 = setTableName e postgresqlTable d5;
                       d7 = setFolder e postgresqlTable d6
                   in case rd_Set e ''schema_column''
                             (flattenDataFactoryStructureColumns e (Structure postgresqlTable)) d7 of
                        (Some msg, d8) \<Rightarrow> (Some (SettingField ''schema_column'' msg), d8)
                      | (None, d8) \<Rightarrow> (None, d8))))"

text \<open>Lines 276 to 280: the four fields written from the parsed identifier.\<close>

definition setIdentity :: "'w env \<Rightarrow> DataSetId \<Rightarrow> ResourceData \<Rightarrow> ResourceData" where
  "setIdentity e i d0 =
     (let dataFactoryId = NewDataFactoryID (SubscriptionId i) (ResourceGroup i) (FactoryName i);
          d1 = Set_unchecked e ''name'' (VStr (Name i)) d0;
          d2 = Set_unchecked e ''resource_group_name'' (VStr (ResourceGroup i)) d1;
          d3 = Set_unchecked e ''data_factory_name'' (VStr (FactoryName i)) d2
      in Set_unchecked e ''data_factory_id'' (VStr (DataFactoryId_ID dataFactoryId)) d3)"

text \<open>Lines 276 to 329: what the handler does with an entity that was fetched.\<close>

definition readFound ::
  "'w env \<Rightarrow> DataSetId \<Rightarrow> DatasetResource \<Rightarrow> ResourceData \<Rightarrow> error option \<times> ResourceData" where
  "readFound e i resp d0 =
     (let d4 = setIdentity e i d0
      in case Properties resp of
           None \<Rightarrow> (Some (Panic NilProperties), d4)
         | Some props \<Rightarrow>
             (case AsRelationalTableDataset props of
                None \<Rightarrow>
                  (case Type resp of
                     None \<Rightarrow> (Some (Panic NilRespType), d4)
                   | Some t \<Rightarrow> (Some (Classifying i TypeBasicDatasetTypePostgreSQLTable t), d4))
              | Some postgresqlTable \<Rightarrow> readDataset e postgresqlTable d4))"

definition resourceDataFactoryDatasetPostgreSQLRead ::
  "'w env \<Rightarrow> 'w state \<Rightarrow> error option \<times> 'w state" where
  "resourceDataFactoryDatasetPostgreSQLRead e st =
     (case DataSetID (rd_Id (rd st)) of
        Inl err \<Rightarrow> (Some err, st)
      | Inr i \<Rightarrow>
          (case do_Get e i st of
             ((resp, Some msg), st1) \<Rightarrow>
               if ResponseWasNotFound (Response resp)
               then (None, st1\<lparr>rd := SetId [] (rd st1)\<rparr>)
               else (Some (Retrieving i msg), st1)
           | ((resp, None), st1) \<Rightarrow>
               (case readFound e i resp (rd st1) of
                  (r, d') \<Rightarrow> (r, st1\<lparr>rd := d'\<rparr>))))"

text \<open>Lines 162 to 252.\<close>

definition resourceDataFactoryDatasetPostgreSQLCreateUpdate ::
  "'w env \<Rightarrow> 'w state \<Rightarrow> error option \<times> 'w state" where
  "resourceDataFactoryDatasetPostgreSQLCreateUpdate e st =
     (case resolveDataFactoryId e (rd st) of
        Inl err \<Rightarrow> (Some err, st)
      | Inr None \<Rightarrow> (Some (Panic NilDataFactoryId), st)
      | Inr (Some dataFactoryId) \<Rightarrow>
          (let i = NewDataSetID (SubscriptionID e) (df_ResourceGroup dataFactoryId)
                     (df_FactoryName dataFactoryId) (GetString (rd st) ''name'')
           in case checkExisting e i st of
                (Some err, st1) \<Rightarrow> (Some err, st1)
              | (None, st1) \<Rightarrow>
                  (case do_CreateOrUpdate e i (buildDataset e (rd st1)) st1 of
                     (Some msg, st2) \<Rightarrow> (Some (CreatingUpdating i msg), st2)
                   | (None, st2) \<Rightarrow>
                       resourceDataFactoryDatasetPostgreSQLRead e
                         (st2\<lparr>rd := SetId (DataSetId_ID i) (rd st2)\<rparr>))))"

section \<open>The delete handler\<close>

definition resourceDataFactoryDatasetPostgreSQLDelete ::
  "'w env \<Rightarrow> 'w state \<Rightarrow> error option \<times> 'w state" where
  "resourceDataFactoryDatasetPostgreSQLDelete e st =
     (case DataSetID (rd_Id (rd st)) of
        Inl err \<Rightarrow> (Some err, st)
      | Inr i \<Rightarrow>
          (case do_Delete e i st of
             ((response, Some msg), st1) \<Rightarrow>
               if \<not> ResponseWasNotFound response then (Some (Deleting i msg), st1)
               else (None, st1)
           | ((response, None), st1) \<Rightarrow> (None, st1)))"

section \<open>The resource descriptor\<close>

text \<open>
  \<open>pluginsdk.Schema\<close> and \<open>pluginsdk.Resource\<close>, with the fields the descriptor sets. A
  validation function is kept by its name; \<open>time.Duration\<close> counts nanoseconds, and the
  pointer \<open>pluginsdk.DefaultTimeout\<close> returns is an option.
\<close>

datatype ValueType = TypeString | TypeMap | TypeList

datatype validator =
    LinkedServiceDatasetName
  | DataFactoryName
  | ValidateDataFactoryID
  | StringIsNotEmpty
  | StringInSlice "string list" bool

record ElemSchema =
  elem_Type :: ValueType
  elem_Required :: bool
  elem_Optional :: bool
  elem_ValidateFunc :: "validator option"

datatype Elem = NoElem | ElemOfSchema ValueType | ElemOfResource "(string \<times> ElemSchema) list"

record Schema =
  SType :: ValueType
  Required :: bool
  Optional :: bool
  Computed :: bool
  ForceNew :: bool
  ValidateFunc :: "validator option"
  Deprecated :: string
  ExactlyOneOf :: "string list"
  Elem :: Elem

record ResourceTimeout =
  Create_timeout :: "int option"
  Read_timeout :: "int option"
  Update_timeout :: "int option"
  Delete_timeout :: "int option"

record 'w Resource =
  Create :: "'w env \<Rightarrow> 'w state \<Rightarrow> error option \<times> 'w state"
  Read :: "'w env \<Rightarrow> 'w state \<Rightarrow> error option \<times> 'w state"
  Update :: "'w env \<Rightarrow> 'w state \<Rightarrow> error option \<times> 'w state"
  Delete :: "'w env \<Rightarrow> 'w state \<Rightarrow> error option \<times> 'w state"
  Importer :: "string \<Rightarrow> error option"
  Timeouts :: ResourceTimeout
  Schema :: "(string \<times> Schema) list"

definition Second :: int where
  "Second = 1000000000"

definition Minute :: int where
  "Minute = 60 * Second"

definition DefaultTimeout :: "int \<Rightarrow> int option" where
  "DefaultTimeout duration = Some duration"

text \<open>The zero value of \<open>pluginsdk.Schema\<close> but for its type: what a field not set is.\<close>

definition schema_of :: "ValueType \<Rightarrow> Schema" where
  "schema_of t =
     \<lparr>SType = t, Required = False, Optional = False, Computed = False, ForceNew = False,
      ValidateFunc = None, Deprecated = [], ExactlyOneOf = [], Elem = NoElem\<rparr>"

definition elem_of :: "ValueType \<Rightarrow> ElemSchema" where
  "elem_of t =
     \<lparr>elem_Type = t, elem_Required = False, elem_Optional = False, elem_ValidateFunc = None\<rparr>"

text \<open>
  Lines 20 to 160. The schema of \<open>resource_group_name\<close> comes from
  \<open>azure.SchemaResourceGroupNameDiffSuppress\<close>, which is not among the sources, and is a
  parameter.
\<close>

definition resourceDataFactoryDatasetPostgreSQL :: "Schema \<Rightarrow> 'w Resource" where
  "resourceDataFactoryDatasetPostgreSQL SchemaResourceGroupNameDiffSuppress =
     \<lparr>Create = resourceDataFactoryDatasetPostgreSQLCreateUpdate,
      Read = resourceDataFactoryDatasetPostgreSQLRead,
      Update = resourceDataFactoryDatasetPostgreSQLCreateUpdate,
      Delete = resourceDataFactoryDatasetPostgreSQLDelete,
      Importer = (\<lambda>id. case DataSetID id of Inl err \<Rightarrow> Some err | Inr _ \<Rightarrow> None),
      Timeouts =
        \<lparr>Create_timeout = DefaultTimeout (30 * Minute),
         Read_timeout = DefaultTimeout (5 * Minute),
         Update_timeout = DefaultTimeout (30 * Minute),
         Delete_timeout = DefaultTimeout (30 * Minute)\<rparr>,
      Schema =
        [(''name'',
            (schema_of TypeString)\<lparr>Required := True, ForceNew := True,
              ValidateFunc := Some LinkedServiceDatasetName\<rparr>),
         (''data_factory_name'',
            (schema_of TypeString)\<lparr>Optional := True, Computed := True, ForceNew := True,
              ValidateFunc := Some DataFactoryName,
              Deprecated := ''`data_factory_name` is deprecated in favour of `data_factory_id` and will be removed in version 3.0 of the AzureRM provider'',
              ExactlyOneOf := [''data_factory_id'']\<rparr>),
         (''data_factory_id'',
            (schema_of TypeString)\<lparr>Optional := True, Computed := True, ForceNew := True,
              ValidateFunc := Some ValidateDataFactoryID,
              ExactlyOneOf := [''data_factory_name'']\<rparr>),
         (''resource_group_name'', SchemaResourceGroupNameDiffSuppress),
         (''linked_service_name'',
            (schema_of TypeString)\<lparr>Required := True, ValidateFunc := Some StringIsNotEmpty\<rparr>),
         (''table_name'',
            (schema_of TypeString)\<lparr>Optional := True, ValidateFunc := Some StringIsNotEmpty\<rparr>),
         (''parameters'',
            (schema_of TypeMap)\<lparr>Optional := True, Elem := ElemOfSchema TypeString\<rparr>),
         (''description'',
            (schema_of TypeString)\<lparr>Optional := True, ValidateFunc := Some StringIsNotEmpty\<rparr>),
         (''annotations'',
            (schema_of TypeList)\<lparr>Optional := True, Elem := ElemOfSchema TypeString\<rparr>),
         (''folder'',
            (schema_of TypeString)\<lparr>Optional := True, ValidateFunc := Some StringIsNotEmpty\<rparr>),
         (''additional_properties'',
            (schema_of TypeMap)\<lparr>Optional := True, Elem := ElemOfSchema TypeString\<rparr>),
         (''schema_column'',
            (schema_of TypeList)\<lparr>Optional := True,
              Elem := ElemOfResource
                [(''name'',
                    (elem_of TypeString)\<lparr>elem_Required := True,
                      elem_ValidateFunc := Some StringIsNotEmpty\<rparr>),
                 (''type'',
                    (elem_of TypeString)\<lparr>elem_Optional := True,
                      elem_ValidateFunc := Some (StringInSlice
                        [''Byte'', ''Byte[]'', ''Boolean'', ''Date'', ''DateTime'',
                         ''DateTimeOffset'', ''Decimal'', ''Double'', ''Guid'', ''Int16'',
                         ''Int32'', ''Int64'', ''Single'', ''String'', ''TimeSpan''] False)\<rparr>),
                 (''description'',
                    (elem_of TypeString)\<lparr>elem_Optional := True,
                      elem_ValidateFunc := Some StringIsNotEmpty\<rparr>)]\<rparr>)]\<rparr>"

section \<open>A stand-in for the external API\<close>

text \<open>
  An in-memory external API on which the handlers can be run: the world is the one
  dataset the platform holds, if any. \<open>Get\<close> answers 404 with an error when there is
  none, \<open>CreateOrUpdate\<close> stores the payload under its identifier, \<open>Delete\<close> removes it
  and answers 404 with an error when there was nothing to remove. The helpers pass
  values through, and \<open>d.Set\<close> refuses nothing.
\<close>

definition example_env :: "DatasetResource option env" where
  "example_env =
     \<lparr>SubscriptionID = ''sub-1'',
      client_Get = (\<lambda>w rg f n ifNoneMatch.
        case w of
          None \<Rightarrow>
            ((\<lparr>Response = Some 404, ID = None, Type = None, Properties = None\<rparr>,
              Some ''not found''), w)
        | Some dataset \<Rightarrow> ((dataset\<lparr>Response := Some 200\<rparr>, None), w)),
      client_CreateOrUpdate = (\<lambda>w rg f n dataset ifMatch.
        (None, Some (dataset\<lparr>ID := Some (DataSetId_ID (NewDataSetID ''sub-1'' rg f n))\<rparr>))),
      client_Delete = (\<lambda>w rg f n.
        case w of
          None \<Rightarrow> ((Some 404, Some ''not found''), None)
        | Some dataset \<Rightarrow> ((Some 200, None), None)),
      expandDataFactoryParameters = (\<lambda>v. v),
      expandDataFactoryDatasetStructure = (\<lambda>v. v),
      flattenDataFactoryParameters = (\<lambda>v. case v of VNil \<Rightarrow> VMap [] | _ \<Rightarrow> v),
      flattenDataFactoryAnnotations = (\<lambda>a. case a of None \<Rightarrow> VList [] | Some xs \<Rightarrow> VList xs),
      flattenDataFactoryStructureColumns = (\<lambda>v. case v of VNil \<Rightarrow> VList [] | _ \<Rightarrow> v),
      set_refused = (\<lambda>key v. None)\<rparr>"

definition example_Id :: string where
  "example_Id =
     ''/subscriptions/sub-1/resourceGroups/rg1/providers/Microsoft.DataFactory/factories/factory1/datasets/orders''"

definition example_DataSetId :: DataSetId where
  "example_DataSetId =
     \<lparr>SubscriptionId = ''sub-1'', ResourceGroup = ''rg1'', FactoryName = ''factory1'',
      Name = ''orders''\<rparr>"

definition example_fields :: "string \<rightharpoonup> iface" where
  "example_fields =
     [''name'' \<mapsto> VStr ''orders'', ''resource_group_name'' \<mapsto> VStr ''rg1'',
      ''data_factory_name'' \<mapsto> VStr ''factory1'', ''linked_service_name'' \<mapsto> VStr ''pg'']"

text \<open>A dataset as the platform returns it, but for its payload and resource type.\<close>

definition example_dataset :: "string option \<Rightarrow> BasicDataset \<Rightarrow> DatasetResource" where
  "example_dataset t props =
     \<lparr>Response = Some 200, ID = Some example_Id, Type = t, Properties = Some props\<rparr>"

definition example_table :: RelationalTableDataset where
  "example_table =
     \<lparr>RelationalTableDatasetTypeProperties = None, AdditionalProperties = [],
      Description = None, Structure = VNil, LinkedServiceName = None, Parameters = VNil,
      Annotations = None, Folder = None\<rparr>"

definition example_factory_Id :: string where
  "example_factory_Id =
     ''/subscriptions/sub-1/resourceGroups/rg1/providers/Microsoft.DataFactory/factories/factory1''"

definition example_state ::
  "bool \<Rightarrow> (string \<rightharpoonup> iface) \<Rightarrow> string \<Rightarrow> DatasetResource option
     \<Rightarrow> DatasetResource option state" where
  "example_state new flds key w =
     \<lparr>rd = \<lparr>rd_Id = key, IsNewResource = new, rd_fields = flds\<rparr>, world = w, calls = []\<rparr>"

section \<open>What the platform holds for a guarded field\<close>






section \<open>Identifiers: splitting and the round trip\<close>

lemma split_on_nonempty: "split_on c s \<noteq> []"
  by (induction s) (auto split: list.splits)

lemma split_on_no_sep: "c \<notin> set a \<Longrightarrow> split_on c a = [a]"
  by (induction a) auto

lemma split_on_append:
  "c \<notin> set a \<Longrightarrow> split_on c (a @ c # rest) = a # split_on c rest"
  by (induction a) auto

lemma DataSetId_ID_split:
  assumes "CHR ''/'' \<notin> set (SubscriptionId i)" "CHR ''/'' \<notin> set (ResourceGroup i)"
    "CHR ''/'' \<notin> set (FactoryName i)" "CHR ''/'' \<notin> set (Name i)"
  shows "split_on CHR ''/'' (DataSetId_ID i) =
    [[], ''subscriptions'', SubscriptionId i, ''resourceGroups'', ResourceGroup i, ''providers'',
     ''Microsoft.DataFactory'', ''factories'', FactoryName i, ''datasets'', Name i]"
proof -
  have n: "split_on CHR ''/'' (Name i) = [Name i]"
    using assms(4) by (rule split_on_no_sep)
  have f: "split_on CHR ''/'' (FactoryName i @ CHR ''/'' # ''datasets/'' @ Name i)
             = [FactoryName i, ''datasets'', Name i]"
    using assms(3) n by (simp add: split_on_append)
  have r: "split_on CHR ''/'' (ResourceGroup i @ CHR ''/'' # ''providers/Microsoft.DataFactory/factories/''
              @ FactoryName i @ CHR ''/'' # ''datasets/'' @ Name i)
             = [ResourceGroup i, ''providers'', ''Microsoft.DataFactory'', ''factories'',
                FactoryName i, ''datasets'', Name i]"
    using assms(2) f by (simp add: split_on_append)
  have s: "split_on CHR ''/'' (SubscriptionId i @ CHR ''/'' # ''resourceGroups/'' @ ResourceGroup i
              @ CHR ''/'' # ''providers/Microsoft.DataFactory/factories/''
              @ FactoryName i @ CHR ''/'' # ''datasets/'' @ Name i)
             = [SubscriptionId i, ''resourceGroups'', ResourceGroup i, ''providers'',
                ''Microsoft.DataFactory'', ''factories'', FactoryName i, ''datasets'', Name i]"
    using assms(1) r by (simp add: split_on_append)
  show ?thesis
    using s by (simp add: DataSetId_ID_def)
qed

lemma example_Id_parses: "DataSetID example_Id = Inr example_DataSetId"
  by (simp add: DataSetID_def example_Id_def example_DataSetId_def)

text \<open>
  C2. Building the identifier string of a dataset from a subscription, a resource group,
  a factory name and a dataset name, each of them non-empty and free of \<open>/\<close>, and parsing
  that string succeeds with an identifier whose four fields are exactly those four
  components, each in its own place.
\<close>

theorem DataSetID_roundtrip:
  assumes "valid_segment subscriptionId" "valid_segment resourceGroup"
    "valid_segment factoryName" "valid_segment name"
  shows "DataSetID (DataSetId_ID (NewDataSetID subscriptionId resourceGroup factoryName name))
           = Inr \<lparr>SubscriptionId = subscriptionId, ResourceGroup = resourceGroup,
                  FactoryName = factoryName, Name = name\<rparr>"
  using assms
  by (simp add: DataSetID_def DataSetId_ID_split NewDataSetID_def valid_segment_def)

theorem DataSetID_roundtrip_witness:
  "valid_segment ''sub-1'' \<and> valid_segment ''rg1'' \<and> valid_segment ''factory1''
   \<and> valid_segment ''orders''
   \<and> DataSetID ''/subscriptions/sub-1/resourceGroups/rg1/providers/Microsoft.DataFactory/factories/factory1/datasets/orders''
       = Inr \<lparr>SubscriptionId = ''sub-1'', ResourceGroup = ''rg1'', FactoryName = ''factory1'',
              Name = ''orders''\<rparr>"
proof -
  have v: "valid_segment ''sub-1''" "valid_segment ''rg1''" "valid_segment ''factory1''"
    "valid_segment ''orders''"
    by (simp_all add: valid_segment_def)
  show ?thesis
    using v DataSetID_roundtrip [OF v]
    by (simp add: DataSetId_ID_def NewDataSetID_def)
qed

section \<open>What the handlers can return\<close>

lemma DataSetID_error: "DataSetID s = Inl err \<Longrightarrow> err = ParseError s"
  unfolding DataSetID_def
  by (cases "(s, split_on CHR ''/'' s)" rule: DataSetID_segments.cases) (auto split: if_splits)

lemma DataFactoryID_error: "DataFactoryID s = Inl err \<Longrightarrow> err = ParseError s"
  unfolding DataFactoryID_def
  by (cases "(s, split_on CHR ''/'' s)" rule: DataFactoryID_segments.cases) (auto split: if_splits)

lemma readDataset_error:
  "readDataset e t d = (Some err, d') \<Longrightarrow> \<exists>k m. err = SettingField k m"
  by (auto simp: readDataset_def Let_def split: prod.splits option.splits)

lemma readFound_error:
  "readFound e i resp d = (Some err, d') \<Longrightarrow>
     err = Panic NilProperties \<or> err = Panic NilRespType
     \<or> (\<exists>t. err = Classifying i TypeBasicDatasetTypePostgreSQLTable t)
     \<or> (\<exists>k m. err = SettingField k m)"
  by (auto simp: readFound_def Let_def split: option.splits dest: readDataset_error)

lemma Read_error:
  "fst (resourceDataFactoryDatasetPostgreSQLRead e st) = Some err \<Longrightarrow>
     (\<exists>s. err = ParseError s) \<or> (\<exists>i m. err = Retrieving i m)
     \<or> err = Panic NilProperties \<or> err = Panic NilRespType
     \<or> (\<exists>i a b. err = Classifying i a b) \<or> (\<exists>k m. err = SettingField k m)"
  unfolding resourceDataFactoryDatasetPostgreSQLRead_def
  by (auto split: sum.splits prod.splits option.splits if_splits
      dest!: DataSetID_error readFound_error)

lemma Read_calls:
  "\<exists>rest. calls (snd (resourceDataFactoryDatasetPostgreSQLRead e st)) = calls st @ rest"
  unfolding resourceDataFactoryDatasetPostgreSQLRead_def do_Get_def
  by (auto split: sum.splits prod.splits option.splits if_splits)

lemma checkExisting_error:
  "checkExisting e i st = (Some err, st1) \<Longrightarrow>
     (\<exists>m. err = CheckingPresence i m) \<or> (\<exists>a b. err = ImportAsExistsError a b)"
  by (auto simp: checkExisting_def existsError_def split: if_splits prod.splits option.splits)

lemma resolveDataFactoryId_error:
  "resolveDataFactoryId e d = Inl err \<Longrightarrow> \<exists>s. err = ParseError s"
  by (auto simp: resolveDataFactoryId_def Let_def split: if_splits sum.splits dest: DataFactoryID_error)

lemma resolveDataFactoryId_nil:
  "resolveDataFactoryId e d = Inr None \<longleftrightarrow>
     GetString d ''data_factory_name'' = [] \<and> GetString d ''data_factory_id'' = []"
  by (auto simp: resolveDataFactoryId_def Let_def split: if_splits sum.splits)

section \<open>Running the handlers on the stand-in\<close>

lemma example_ID_string:
  "DataSetId_ID \<lparr>SubscriptionId = ''sub-1'', ResourceGroup = ''rg1'', FactoryName = ''factory1'',
      Name = ''orders''\<rparr> = example_Id"
  by (simp add: DataSetId_ID_def example_Id_def)

lemma example_factory_ID_string:
  "DataFactoryId_ID \<lparr>df_SubscriptionId = ''sub-1'', df_ResourceGroup = ''rg1'',
      df_FactoryName = ''factory1''\<rparr> = example_factory_Id"
  by (simp add: DataFactoryId_ID_def example_factory_Id_def)

lemma example_factory_Id_parses:
  "DataFactoryID example_factory_Id =
     Inr \<lparr>df_SubscriptionId = ''sub-1'', df_ResourceGroup = ''rg1'', df_FactoryName = ''factory1''\<rparr>"
  by (simp add: DataFactoryID_def example_factory_Id_def)

lemma example_Id_nonempty: "example_Id \<noteq> []"
  by (simp add: example_Id_def)

lemma example_factory_Id_nonempty: "example_factory_Id \<noteq> []"
  by (simp add: example_factory_Id_def)

lemmas run_defs =
  resourceDataFactoryDatasetPostgreSQLCreateUpdate_def resourceDataFactoryDatasetPostgreSQLRead_def
  resourceDataFactoryDatasetPostgreSQLDelete_def
  resolveDataFactoryId_def checkExisting_def existsError_def buildDataset_def
  readFound_def readDataset_def setIdentity_def setDescription_def setLinkedServiceName_def
  setTableName_def setFolder_def
  do_Get_def do_CreateOrUpdate_def do_Delete_def rd_Set_def Set_unchecked_def SetId_def
  GetString_def GetOk_def is_zero_def ResponseWasNotFound_def
  NewDataFactoryID_def NewDataSetID_def TypeBasicDatasetTypePostgreSQLTable_def Let_def
  example_env_def example_DataSetId_def example_fields_def example_dataset_def
  example_table_def example_state_def
  example_Id_parses example_ID_string example_factory_ID_string example_factory_Id_parses
  example_Id_nonempty example_factory_Id_nonempty

section \<open>The fields the read handler writes\<close>










section \<open>The create/update handler: probe, resolution and hand-over\<close>

text \<open>
  C1. On a creation, when the factory identifier resolves and the probe for an existing
  entity does not fail with anything but not-found, an entity that comes back with a
  non-empty ID makes the handler return the "already exists" error of that ID, with the
  probe as its only call: \<open>CreateOrUpdate\<close> is not invoked. When the probe fails with
  a not-found response and carries no ID, the handler does not return the probe's error
  and goes on to invoke \<open>CreateOrUpdate\<close> with the payload built from the declared state.
\<close>

theorem create_on_existing_is_conflict:
  assumes "IsNewResource (rd st)"
    and "resolveDataFactoryId e (rd st) = Inr (Some dataFactoryId)"
    and "i = NewDataSetID (SubscriptionID e) (df_ResourceGroup dataFactoryId)
               (df_FactoryName dataFactoryId) (GetString (rd st) ''name'')"
    and "client_Get e (world st) (ResourceGroup i) (FactoryName i) (Name i) [] = ((existing, err), w1)"
    and "st1 = st\<lparr>world := w1,
                   calls := calls st @ [CallGet (ResourceGroup i) (FactoryName i) (Name i) []]\<rparr>"
  shows "((err = None \<or> ResponseWasNotFound (Response existing)) \<and> ID existing = Some x \<and> x \<noteq> []
            \<longrightarrow> resourceDataFactoryDatasetPostgreSQLCreateUpdate e st =
                  (Some (ImportAsExistsError ''azurerm_data_factory_dataset_postgresql'' x), st1))
       \<and> (err \<noteq> None \<and> ResponseWasNotFound (Response existing)
            \<and> (ID existing = None \<or> ID existing = Some [])
            \<longrightarrow> (\<exists>rest. calls (snd (resourceDataFactoryDatasetPostgreSQLCreateUpdate e st)) =
                    calls st1 @ CallCreateOrUpdate (ResourceGroup i) (FactoryName i) (Name i)
                                  (buildDataset e (rd st)) [] # rest)
                \<and> (\<forall>m. fst (resourceDataFactoryDatasetPostgreSQLCreateUpdate e st)
                         \<noteq> Some (CheckingPresence i m))
                \<and> (\<forall>a b. fst (resourceDataFactoryDatasetPostgreSQLCreateUpdate e st)
                         \<noteq> Some (ImportAsExistsError a b)))"
proof (rule conjI; rule impI)
  assume h: "(err = None \<or> ResponseWasNotFound (Response existing)) \<and> ID existing = Some x \<and> x \<noteq> []"
  then have "checkExisting e i st =
               (Some (ImportAsExistsError ''azurerm_data_factory_dataset_postgresql'' x), st1)"
    using assms(1,4,5)
    by (auto simp: checkExisting_def do_Get_def existsError_def split: option.splits)
  then show "resourceDataFactoryDatasetPostgreSQLCreateUpdate e st =
               (Some (ImportAsExistsError ''azurerm_data_factory_dataset_postgresql'' x), st1)"
    using assms(2,3)
    by (simp add: resourceDataFactoryDatasetPostgreSQLCreateUpdate_def Let_def)
next
  assume h: "err \<noteq> None \<and> ResponseWasNotFound (Response existing)
              \<and> (ID existing = None \<or> ID existing = Some [])"
  then have c: "checkExisting e i st = (None, st1)"
    using assms(1,4,5)
    by (auto simp: checkExisting_def do_Get_def existsError_def split: option.splits)
  have d: "rd st1 = rd st"
    using assms(5) by simp
  obtain r2 st2 where u: "do_CreateOrUpdate e i (buildDataset e (rd st)) st1 = (r2, st2)"
    by (cases "do_CreateOrUpdate e i (buildDataset e (rd st)) st1")
  then have calls2: "calls st2 = calls st1 @ [CallCreateOrUpdate (ResourceGroup i) (FactoryName i) (Name i)
                                  (buildDataset e (rd st)) []]"
    by (auto simp: do_CreateOrUpdate_def split: prod.splits)
  show "(\<exists>rest. calls (snd (resourceDataFactoryDatasetPostgreSQLCreateUpdate e st)) =
                    calls st1 @ CallCreateOrUpdate (ResourceGroup i) (FactoryName i) (Name i)
                                  (buildDataset e (rd st)) [] # rest)
        \<and> (\<forall>m. fst (resourceDataFactoryDatasetPostgreSQLCreateUpdate e st)
                         \<noteq> Some (CheckingPresence i m))
        \<and> (\<forall>a b. fst (resourceDataFactoryDatasetPostgreSQLCreateUpdate e st)
                         \<noteq> Some (ImportAsExistsError a b))"
  proof (cases r2)
    case (Some m)
    then have "resourceDataFactoryDatasetPostgreSQLCreateUpdate e st = (Some (CreatingUpdating i m), st2)"
      using assms(2,3) c d u
      by (simp add: resourceDataFactoryDatasetPostgreSQLCreateUpdate_def Let_def)
    then show ?thesis
      using calls2 by simp
  next
    case None
    let ?st3 = "st2\<lparr>rd := SetId (DataSetId_ID i) (rd st2)\<rparr>"
    have eq: "resourceDataFactoryDatasetPostgreSQLCreateUpdate e st =
                resourceDataFactoryDatasetPostgreSQLRead e ?st3"
      using assms(2,3) c d u None
      by (simp add: resourceDataFactoryDatasetPostgreSQLCreateUpdate_def Let_def)
    obtain rest where "calls (snd (resourceDataFactoryDatasetPostgreSQLRead e ?st3)) = calls ?st3 @ rest"
      using Read_calls [of e ?st3] by blast
    then have "calls (snd (resourceDataFactoryDatasetPostgreSQLCreateUpdate e st)) =
                 calls st1 @ CallCreateOrUpdate (ResourceGroup i) (FactoryName i) (Name i)
                                  (buildDataset e (rd st)) [] # rest"
      using eq calls2 by simp
    moreover have "\<forall>m. fst (resourceDataFactoryDatasetPostgreSQLCreateUpdate e st)
                         \<noteq> Some (CheckingPresence i m)"
      using Read_error [of e ?st3] eq by auto
    moreover have "\<forall>a b. fst (resourceDataFactoryDatasetPostgreSQLCreateUpdate e st)
                         \<noteq> Some (ImportAsExistsError a b)"
      using Read_error [of e ?st3] eq by auto
    ultimately show ?thesis
      by blast
  qed
qed

theorem create_on_existing_is_conflict_witness:
  "resourceDataFactoryDatasetPostgreSQLCreateUpdate example_env
     (example_state True example_fields []
        (Some (example_dataset None (IsRelationalTableDataset example_table))))
   = (Some (ImportAsExistsError ''azurerm_data_factory_dataset_postgresql'' example_Id),
      (example_state True example_fields []
        (Some (example_dataset None (IsRelationalTableDataset example_table))))
      \<lparr>calls := [CallGet ''rg1'' ''factory1'' ''orders'' []]\<rparr>)
   \<and> fst (resourceDataFactoryDatasetPostgreSQLCreateUpdate example_env
       (example_state True example_fields [] None)) = None
   \<and> calls (snd (resourceDataFactoryDatasetPostgreSQLCreateUpdate example_env
       (example_state True example_fields [] None)))
     = [CallGet ''rg1'' ''factory1'' ''orders'' [],
        CallCreateOrUpdate ''rg1'' ''factory1'' ''orders''
          (buildDataset example_env
             \<lparr>rd_Id = [], IsNewResource = True, rd_fields = example_fields\<rparr>) [],
        CallGet ''rg1'' ''factory1'' ''orders'' []]"
  using create_on_existing_is_conflict [where
      st = "example_state True example_fields []
              (Some (example_dataset None (IsRelationalTableDataset example_table)))"
      and e = example_env
      and dataFactoryId = "\<lparr>df_SubscriptionId = ''sub-1'', df_ResourceGroup = ''rg1'',
                             df_FactoryName = ''factory1''\<rparr>"
      and i = example_DataSetId
      and existing = "example_dataset None (IsRelationalTableDataset example_table)"
      and err = None
      and ?w1.0 = "Some (example_dataset None (IsRelationalTableDataset example_table))"
      and ?st1.0 = "(example_state True example_fields []
                 (Some (example_dataset None (IsRelationalTableDataset example_table))))
               \<lparr>calls := [CallGet ''rg1'' ''factory1'' ''orders'' []]\<rparr>"
      and x = example_Id]
    create_on_existing_is_conflict [where
      st = "example_state True example_fields [] None"
      and e = example_env
      and dataFactoryId = "\<lparr>df_SubscriptionId = ''sub-1'', df_ResourceGroup = ''rg1'',
                             df_FactoryName = ''factory1''\<rparr>"
      and i = example_DataSetId
      and existing = "\<lparr>Response = Some 404, ID = None, Type = None, Properties = None\<rparr>"
      and err = "Some ''not found''"
      and ?w1.0 = None
      and ?st1.0 = "(example_state True example_fields [] None)
               \<lparr>calls := [CallGet ''rg1'' ''factory1'' ''orders'' []]\<rparr>"]
  by (simp add: run_defs)

text \<open>
  C9. When the handler reaches the external create-or-update call (the factory identifier
  resolved, the probe let it pass) and that call succeeds, the handler sets the persistent
  key to the identifier string it constructed and returns what the read handler returns
  on that state.
\<close>

theorem create_update_adopts_id_then_reads:
  assumes "resolveDataFactoryId e (rd st) = Inr (Some dataFactoryId)"
    and "i = NewDataSetID (SubscriptionID e) (df_ResourceGroup dataFactoryId)
               (df_FactoryName dataFactoryId) (GetString (rd st) ''name'')"
    and "checkExisting e i st = (None, st1)"
    and "client_CreateOrUpdate e (world st1) (ResourceGroup i) (FactoryName i) (Name i)
           (buildDataset e (rd st1)) [] = (None, w2)"
  shows "resourceDataFactoryDatasetPostgreSQLCreateUpdate e st =
           resourceDataFactoryDatasetPostgreSQLRead e
             (st1\<lparr>world := w2,
                  calls := calls st1 @ [CallCreateOrUpdate (ResourceGroup i) (FactoryName i) (Name i)
                                          (buildDataset e (rd st1)) []],
                  rd := (rd st1)\<lparr>rd_Id := DataSetId_ID i\<rparr>\<rparr>)"
  using assms
  by (simp add: resourceDataFactoryDatasetPostgreSQLCreateUpdate_def do_CreateOrUpdate_def
      SetId_def Let_def)

theorem create_update_adopts_id_then_reads_witness:
  "resourceDataFactoryDatasetPostgreSQLCreateUpdate example_env
     (example_state True example_fields [] None)
   = resourceDataFactoryDatasetPostgreSQLRead example_env
       \<lparr>rd = \<lparr>rd_Id = example_Id, IsNewResource = True, rd_fields = example_fields\<rparr>,
        world = Some ((buildDataset example_env
                 \<lparr>rd_Id = [], IsNewResource = True, rd_fields = example_fields\<rparr>)
                 \<lparr>ID := Some example_Id\<rparr>),
        calls = [CallGet ''rg1'' ''factory1'' ''orders'' [],
                 CallCreateOrUpdate ''rg1'' ''factory1'' ''orders''
                   (buildDataset example_env
                      \<lparr>rd_Id = [], IsNewResource = True, rd_fields = example_fields\<rparr>) []]\<rparr>
   \<and> rd_Id (rd (snd (resourceDataFactoryDatasetPostgreSQLCreateUpdate example_env
       (example_state True example_fields [] None)))) = example_Id"
  using create_update_adopts_id_then_reads [where
      st = "example_state True example_fields [] None"
      and e = example_env
      and dataFactoryId = "\<lparr>df_SubscriptionId = ''sub-1'', df_ResourceGroup = ''rg1'',
                             df_FactoryName = ''factory1''\<rparr>"
      and i = example_DataSetId
      and ?st1.0 = "(example_state True example_fields [] None)
               \<lparr>calls := [CallGet ''rg1'' ''factory1'' ''orders'' []]\<rparr>"
      and ?w2.0 = "Some ((buildDataset example_env
                 \<lparr>rd_Id = [], IsNewResource = True, rd_fields = example_fields\<rparr>)
                 \<lparr>ID := Some example_Id\<rparr>)"]
  by (simp add: run_defs)

text \<open>
  C6. When \<open>data_factory_name\<close> and \<open>data_factory_id\<close> are both empty, the factory
  identifier is still nil at line 182 and the handler panics on its dereference, before
  any call and with the state untouched. When at least one of the two is not empty, the
  handler never panics there.
\<close>

theorem create_update_nil_factory_id:
  "(GetString (rd st) ''data_factory_name'' = [] \<and> GetString (rd st) ''data_factory_id'' = []
      \<longrightarrow> resourceDataFactoryDatasetPostgreSQLCreateUpdate e st = (Some (Panic NilDataFactoryId), st))
   \<and> (GetString (rd st) ''data_factory_name'' \<noteq> [] \<or> GetString (rd st) ''data_factory_id'' \<noteq> []
      \<longrightarrow> fst (resourceDataFactoryDatasetPostgreSQLCreateUpdate e st) \<noteq> Some (Panic NilDataFactoryId))"
proof (intro conjI impI)
  assume "GetString (rd st) ''data_factory_name'' = [] \<and> GetString (rd st) ''data_factory_id'' = []"
  then have "resolveDataFactoryId e (rd st) = Inr None"
    by (simp add: resolveDataFactoryId_nil)
  then show "resourceDataFactoryDatasetPostgreSQLCreateUpdate e st = (Some (Panic NilDataFactoryId), st)"
    by (simp add: resourceDataFactoryDatasetPostgreSQLCreateUpdate_def)
next
  assume "GetString (rd st) ''data_factory_name'' \<noteq> [] \<or> GetString (rd st) ''data_factory_id'' \<noteq> []"
  then have notnil: "resolveDataFactoryId e (rd st) \<noteq> Inr None"
    by (simp add: resolveDataFactoryId_nil)
  show "fst (resourceDataFactoryDatasetPostgreSQLCreateUpdate e st) \<noteq> Some (Panic NilDataFactoryId)"
  proof (cases "resolveDataFactoryId e (rd st)")
    case (Inl err)
    then show ?thesis
      using resolveDataFactoryId_error [OF Inl]
      by (auto simp: resourceDataFactoryDatasetPostgreSQLCreateUpdate_def)
  next
    case (Inr r)
    with notnil obtain dataFactoryId where r: "r = Some dataFactoryId"
      by (cases r) auto
    define i where "i = NewDataSetID (SubscriptionID e) (df_ResourceGroup dataFactoryId)
               (df_FactoryName dataFactoryId) (GetString (rd st) ''name'')"
    obtain r1 st1 where c: "checkExisting e i st = (r1, st1)"
      by (cases "checkExisting e i st")
    show ?thesis
    proof (cases r1)
      case (Some err)
      then show ?thesis
        using Inr r c checkExisting_error [of e i st err st1]
        by (auto simp: resourceDataFactoryDatasetPostgreSQLCreateUpdate_def Let_def i_def [symmetric])
    next
      case None
      obtain r2 st2 where u: "do_CreateOrUpdate e i (buildDataset e (rd st1)) st1 = (r2, st2)"
        by (cases "do_CreateOrUpdate e i (buildDataset e (rd st1)) st1")
      show ?thesis
      proof (cases r2)
        case (Some m)
        then show ?thesis
          using Inr r c None u
          by (simp add: resourceDataFactoryDatasetPostgreSQLCreateUpdate_def Let_def i_def [symmetric])
      next
        case n2: None
        have "resourceDataFactoryDatasetPostgreSQLCreateUpdate e st =
                resourceDataFactoryDatasetPostgreSQLRead e (st2\<lparr>rd := SetId (DataSetId_ID i) (rd st2)\<rparr>)"
          using Inr r c None u n2
          by (simp add: resourceDataFactoryDatasetPostgreSQLCreateUpdate_def Let_def i_def [symmetric])
        then show ?thesis
          using Read_error [of e "st2\<lparr>rd := SetId (DataSetId_ID i) (rd st2)\<rparr>" "Panic NilDataFactoryId"]
          by auto
      qed
    qed
  qed
qed

theorem create_update_nil_factory_id_witness:
  "resourceDataFactoryDatasetPostgreSQLCreateUpdate example_env
     (example_state True [''name'' \<mapsto> VStr ''orders''] [] None)
   = (Some (Panic NilDataFactoryId), example_state True [''name'' \<mapsto> VStr ''orders''] [] None)
   \<and> fst (resourceDataFactoryDatasetPostgreSQLCreateUpdate example_env
       (example_state True example_fields [] None)) \<noteq> Some (Panic NilDataFactoryId)"
  using create_update_nil_factory_id [of
      "example_state True [''name'' \<mapsto> VStr ''orders''] [] None" example_env]
    create_update_nil_factory_id [of "example_state True example_fields [] None" example_env]
  by (simp add: example_state_def example_fields_def GetString_def)

text \<open>
  C5, as the claim states it, fails on the handler: a declared state in which
  \<open>data_factory_name\<close> and \<open>data_factory_id\<close> are both non-empty is not rejected. On
  the stand-in the handler succeeds and issues a \<open>CreateOrUpdate\<close> and a \<open>Get\<close>, both
  addressed to the factory that \<open>data_factory_id\<close> names.
\<close>

theorem both_factory_fields_not_rejected:
  "GetString (rd (example_state False
       (example_fields(''data_factory_name'' \<mapsto> VStr ''legacy'',
                       ''data_factory_id'' \<mapsto> VStr example_factory_Id)) [] None))
     ''data_factory_name'' = ''legacy''
   \<and> GetString (rd (example_state False
       (example_fields(''data_factory_name'' \<mapsto> VStr ''legacy'',
                       ''data_factory_id'' \<mapsto> VStr example_factory_Id)) [] None))
     ''data_factory_id'' = example_factory_Id
   \<and> example_factory_Id \<noteq> []
   \<and> fst (resourceDataFactoryDatasetPostgreSQLCreateUpdate example_env
       (example_state False
         (example_fields(''data_factory_name'' \<mapsto> VStr ''legacy'',
                         ''data_factory_id'' \<mapsto> VStr example_factory_Id)) [] None)) = None
   \<and> calls (snd (resourceDataFactoryDatasetPostgreSQLCreateUpdate example_env
       (example_state False
         (example_fields(''data_factory_name'' \<mapsto> VStr ''legacy'',
                         ''data_factory_id'' \<mapsto> VStr example_factory_Id)) [] None)))
     = [CallCreateOrUpdate ''rg1'' ''factory1'' ''orders''
          (buildDataset example_env
             \<lparr>rd_Id = [], IsNewResource = False,
              rd_fields = example_fields(''data_factory_name'' \<mapsto> VStr ''legacy'',
                                         ''data_factory_id'' \<mapsto> VStr example_factory_Id)\<rparr>) [],
        CallGet ''rg1'' ''factory1'' ''orders'' []]"
proof -
  have "example_factory_Id \<noteq> []"
    by (simp add: example_factory_Id_def)
  then show ?thesis
    by (simp add: run_defs)
qed

text \<open>
  C5, amended. The descriptor declares \<open>data_factory_name\<close> and \<open>data_factory_id\<close>
  each \<open>ExactlyOneOf\<close> the other, which leaves the rejection of a configuration that
  supplies both to the schema validation of the host. The handler has no such check:
  when both are non-empty in the declared state, the factory identifier is the parse of
  \<open>data_factory_id\<close> alone, and a \<open>data_factory_id\<close> that does not parse is returned as
  the error before any call, with the state untouched.
\<close>

theorem factory_id_overrides_factory_name:
  assumes "GetString (rd st) ''data_factory_name'' \<noteq> []"
    and "GetString (rd st) ''data_factory_id'' \<noteq> []"
  shows "map_option ExactlyOneOf
           (map_of (Schema (resourceDataFactoryDatasetPostgreSQL s :: 'w Resource)) ''data_factory_name'')
           = Some [''data_factory_id'']
       \<and> map_option ExactlyOneOf
           (map_of (Schema (resourceDataFactoryDatasetPostgreSQL s :: 'w Resource)) ''data_factory_id'')
           = Some [''data_factory_name'']
       \<and> resolveDataFactoryId (e :: 'w env) (rd st)
           = (case DataFactoryID (GetString (rd st) ''data_factory_id'') of
                Inl err \<Rightarrow> Inl err
              | Inr dataFactoryId \<Rightarrow> Inr (Some dataFactoryId))
       \<and> (\<forall>err. DataFactoryID (GetString (rd st) ''data_factory_id'') = Inl err \<longrightarrow>
              resourceDataFactoryDatasetPostgreSQLCreateUpdate e st = (Some err, st))"
proof -
  have r: "resolveDataFactoryId (e :: 'w env) (rd st)
           = (case DataFactoryID (GetString (rd st) ''data_factory_id'') of
                Inl err \<Rightarrow> Inl err
              | Inr dataFactoryId \<Rightarrow> Inr (Some dataFactoryId))"
    using assms by (simp add: resolveDataFactoryId_def Let_def)
  have c: "\<forall>err. DataFactoryID (GetString (rd st) ''data_factory_id'') = Inl err \<longrightarrow>
              resourceDataFactoryDatasetPostgreSQLCreateUpdate e st = (Some err, st)"
    using r by (simp add: resourceDataFactoryDatasetPostgreSQLCreateUpdate_def)
  have s1: "map_option ExactlyOneOf
           (map_of (Schema (resourceDataFactoryDatasetPostgreSQL s :: 'w Resource)) ''data_factory_name'')
           = Some [''data_factory_id'']"
    by (simp add: resourceDataFactoryDatasetPostgreSQL_def schema_of_def)
  have s2: "map_option ExactlyOneOf
           (map_of (Schema (resourceDataFactoryDatasetPostgreSQL s :: 'w Resource)) ''data_factory_id'')
           = Some [''data_factory_name'']"
    by (simp add: resourceDataFactoryDatasetPostgreSQL_def schema_of_def)
  show ?thesis
    using r c s1 s2 by blast
qed

theorem factory_id_overrides_factory_name_witness:
  "resourceDataFactoryDatasetPostgreSQLCreateUpdate example_env
     (example_state False
        (example_fields(''data_factory_id'' \<mapsto> VStr ''not-an-id'')) [] None)
   = (Some (ParseError ''not-an-id''),
      example_state False (example_fields(''data_factory_id'' \<mapsto> VStr ''not-an-id'')) [] None)
   \<and> resolveDataFactoryId example_env
       (rd (example_state False
          (example_fields(''data_factory_name'' \<mapsto> VStr ''legacy'',
                          ''data_factory_id'' \<mapsto> VStr example_factory_Id)) [] None))
     = Inr (Some \<lparr>df_SubscriptionId = ''sub-1'', df_ResourceGroup = ''rg1'',
                  df_FactoryName = ''factory1''\<rparr>)"
proof -
  let ?bad = "example_state False (example_fields(''data_factory_id'' \<mapsto> VStr ''not-an-id'')) [] None"
  let ?good = "example_state False
          (example_fields(''data_factory_name'' \<mapsto> VStr ''legacy'',
                          ''data_factory_id'' \<mapsto> VStr example_factory_Id)) [] None"
  have n: "example_factory_Id \<noteq> []"
    by (simp add: example_factory_Id_def)
  have b: "GetString (rd ?bad) ''data_factory_name'' \<noteq> []"
    "GetString (rd ?bad) ''data_factory_id'' \<noteq> []"
    by (simp_all add: example_state_def example_fields_def GetString_def)
  have g: "GetString (rd ?good) ''data_factory_name'' \<noteq> []"
    "GetString (rd ?good) ''data_factory_id'' \<noteq> []"
    using n by (simp_all add: example_state_def example_fields_def GetString_def)
  have pb: "DataFactoryID (GetString (rd ?bad) ''data_factory_id'') = Inl (ParseError ''not-an-id'')"
    by (simp add: example_state_def example_fields_def GetString_def DataFactoryID_def)
  have pg: "DataFactoryID (GetString (rd ?good) ''data_factory_id'')
              = Inr \<lparr>df_SubscriptionId = ''sub-1'', df_ResourceGroup = ''rg1'',
                      df_FactoryName = ''factory1''\<rparr>"
    by (simp add: example_state_def example_fields_def GetString_def example_factory_Id_parses)
  have 1: "resourceDataFactoryDatasetPostgreSQLCreateUpdate example_env ?bad
             = (Some (ParseError ''not-an-id''), ?bad)"
    using factory_id_overrides_factory_name [OF b, of "schema_of TypeString" example_env] pb
    by blast
  have 2: "resolveDataFactoryId example_env (rd ?good)
             = Inr (Some \<lparr>df_SubscriptionId = ''sub-1'', df_ResourceGroup = ''rg1'',
                          df_FactoryName = ''factory1''\<rparr>)"
    using factory_id_overrides_factory_name [OF g, of "schema_of TypeString" example_env] pg
    by simp
  show ?thesis
    using 1 2 by (rule conjI)
qed

section \<open>The read handler on an entity that is gone\<close>

text \<open>
  C3. When the persisted identifier parses and the fetch of the read handler fails with a
  not-found response, the handler sets the persistent key to the empty string, which
  tells the host that the entity is gone, and returns no error. It makes that one call
  and touches nothing else.
\<close>

theorem read_not_found_clears:
  assumes "DataSetID (rd_Id (rd st)) = Inr i"
    and "client_Get e (world st) (ResourceGroup i) (FactoryName i) (Name i) []
           = ((resp, Some msg), w1)"
    and "ResponseWasNotFound (Response resp)"
  shows "resourceDataFactoryDatasetPostgreSQLRead e st =
           (None, st\<lparr>rd := (rd st)\<lparr>rd_Id := []\<rparr>, world := w1,
                     calls := calls st @ [CallGet (ResourceGroup i) (FactoryName i) (Name i) []]\<rparr>)"
  using assms
  by (simp add: resourceDataFactoryDatasetPostgreSQLRead_def do_Get_def SetId_def)

theorem read_not_found_clears_witness:
  "resourceDataFactoryDatasetPostgreSQLRead example_env
     \<lparr>rd = \<lparr>rd_Id = example_Id, IsNewResource = False, rd_fields = example_fields\<rparr>,
      world = None, calls = []\<rparr>
   = (None, \<lparr>rd = \<lparr>rd_Id = [], IsNewResource = False, rd_fields = example_fields\<rparr>,
             world = None, calls = [CallGet ''rg1'' ''factory1'' ''orders'' []]\<rparr>)"
  using read_not_found_clears [of
      "\<lparr>rd = \<lparr>rd_Id = example_Id, IsNewResource = False, rd_fields = example_fields\<rparr>,
        world = None, calls = []\<rparr>"
      example_DataSetId example_env
      "\<lparr>Response = Some 404, ID = None, Type = None, Properties = None\<rparr>" "''not found''" None]
  by (simp add: example_Id_parses example_env_def example_DataSetId_def ResponseWasNotFound_def)

section \<open>The read handler on an entity of another variant\<close>

text \<open>
  What the handler returns for an entity that was fetched and is not the
  relational-table variant: the classification error naming the expected type and the
  resource type received, when the response carries one; a panic on the dereference of
  \<open>resp.Type\<close> (line 284) when it carries none.
\<close>

lemma Read_variant_mismatch:
  assumes "DataSetID (rd_Id (rd st)) = Inr i"
    and "client_Get e (world st) (ResourceGroup i) (FactoryName i) (Name i) [] = ((resp, None), w1)"
    and "Properties resp = Some props"
    and "AsRelationalTableDataset props = None"
  shows "fst (resourceDataFactoryDatasetPostgreSQLRead e st) =
           (case Type resp of
              None \<Rightarrow> Some (Panic NilRespType)
            | Some received \<Rightarrow>
                Some (Classifying i TypeBasicDatasetTypePostgreSQLTable received))"
  using assms
  by (simp add: resourceDataFactoryDatasetPostgreSQLRead_def do_Get_def readFound_def Let_def
      split: option.splits)

text \<open>
  C7. The read handler does not always return the classification error for an entity of
  another variant: on the stand-in, a fetched dataset of variant \<open>AzureBlob\<close> whose
  resource type is nil makes the handler panic at line 284, where the error message
  dereferences \<open>resp.Type\<close>.
\<close>

theorem read_mismatch_without_type_panics:
  "AsRelationalTableDataset (OtherDataset ''AzureBlob'') = None
   \<and> fst (resourceDataFactoryDatasetPostgreSQLRead example_env
       (example_state False example_fields example_Id
          (Some (example_dataset None (OtherDataset ''AzureBlob'')))))
     = Some (Panic NilRespType)"
  by (simp add: run_defs)

section \<open>The read handler on an entity of the expected variant\<close>




section \<open>The delete handler on an entity that is gone\<close>

text \<open>
  C4. When the persisted identifier parses and the external delete fails, the delete
  handler returns no error if the response is not-found, and otherwise returns the
  failure wrapped with the identifier of the dataset.
\<close>

theorem delete_not_found_is_success:
  assumes "DataSetID (rd_Id (rd st)) = Inr i"
    and "client_Delete e (world st) (ResourceGroup i) (FactoryName i) (Name i)
           = ((response, Some msg), w1)"
  shows "(ResponseWasNotFound response \<longrightarrow>
            fst (resourceDataFactoryDatasetPostgreSQLDelete e st) = None)
       \<and> (\<not> ResponseWasNotFound response \<longrightarrow>
            fst (resourceDataFactoryDatasetPostgreSQLDelete e st) = Some (Deleting i msg))"
  using assms
  by (simp add: resourceDataFactoryDatasetPostgreSQLDelete_def do_Delete_def)

theorem delete_not_found_is_success_witness:
  "fst (resourceDataFactoryDatasetPostgreSQLDelete example_env
     \<lparr>rd = \<lparr>rd_Id = example_Id, IsNewResource = False, rd_fields = example_fields\<rparr>,
      world = None, calls = []\<rparr>) = None
   \<and> fst (resourceDataFactoryDatasetPostgreSQLDelete
       (example_env\<lparr>client_Delete := \<lambda>w rg f n. ((Some 500, Some ''server error''), w)\<rparr>)
     \<lparr>rd = \<lparr>rd_Id = example_Id, IsNewResource = False, rd_fields = example_fields\<rparr>,
      world = None, calls = []\<rparr>) = Some (Deleting example_DataSetId ''server error'')"
  using delete_not_found_is_success [of
      "\<lparr>rd = \<lparr>rd_Id = example_Id, IsNewResource = False, rd_fields = example_fields\<rparr>,
        world = None, calls = []\<rparr>"
      example_DataSetId example_env "Some 404" "''not found''" None]
    delete_not_found_is_success [of
      "\<lparr>rd = \<lparr>rd_Id = example_Id, IsNewResource = False, rd_fields = example_fields\<rparr>,
        world = None, calls = []\<rparr>"
      example_DataSetId
      "example_env\<lparr>client_Delete := \<lambda>w rg f n. ((Some 500, Some ''server error''), w)\<rparr>"
      "Some 500" "''server error''" None]
  by (simp add: example_Id_parses example_env_def example_DataSetId_def ResponseWasNotFound_def)

section \<open>The timeouts of the descriptor\<close>

text \<open>
  C10. The descriptor declares a default timeout of 30 minutes for create, for update and
  for delete, and of 5 minutes for read.
\<close>

theorem default_timeouts:
  "Create_timeout (Timeouts (resourceDataFactoryDatasetPostgreSQL s)) = Some (30 * Minute)
   \<and> Update_timeout (Timeouts (resourceDataFactoryDatasetPostgreSQL s)) = Some (30 * Minute)
   \<and> Delete_timeout (Timeouts (resourceDataFactoryDatasetPostgreSQL s)) = Some (30 * Minute)
   \<and> Read_timeout (Timeouts (resourceDataFactoryDatasetPostgreSQL s)) = Some (5 * Minute)
   \<and> 30 * Minute = 1800 * Second \<and> 5 * Minute = 300 * Second"
  by (simp add: resourceDataFactoryDatasetPostgreSQL_def DefaultTimeout_def Minute_def)

end
